theory Spec2Isabelle
  imports Main
begin

section \<open>JavaScript values seen by the router\<close>

text \<open>
  The values a route's \<open>match\<close> may return. \<open>JArray\<close> is an array, \<open>JObject\<close> a plain
  object (its constructor is \<open>Object\<close>) given by its own enumerable properties, and
  \<open>JOther\<close> stands for any other object (a class instance, a \<open>Map\<close>, ...), identified
  by its address. Numbers are restricted to the integers.
\<close>

datatype jsval =
    JUndefined
  | JNull
  | JBool bool
  | JNum int
  | JStr string
  | JArray "jsval list"
  | JObject "(string \<times> jsval) list"
  | JOther nat

text \<open>The test \<open>if (matchResult)\<close>: JavaScript's conversion to a boolean.\<close>

fun truthy :: "jsval \<Rightarrow> bool" where
  "truthy JUndefined = False"
| "truthy JNull = False"
| "truthy (JBool b) = b"
| "truthy (JNum n) = (n \<noteq> 0)"
| "truthy (JStr s) = (s \<noteq> [])"
| "truthy (JArray xs) = True"
| "truthy (JObject kvs) = True"
| "truthy (JOther a) = True"

text \<open>\<open>Array.isArray(v) && v.length === 0\<close>\<close>

fun isEmptyArray :: "jsval \<Rightarrow> bool" where
  "isEmptyArray (JArray xs) = (length xs = 0)"
| "isEmptyArray v = False"

text \<open>\<open>v.constructor === Object && Object.keys(v).length === 0\<close>\<close>

fun isEmptyPlainObject :: "jsval \<Rightarrow> bool" where
  "isEmptyPlainObject (JObject kvs) = (length (map fst kvs) = 0)"
| "isEmptyPlainObject v = False"

text \<open>\<open>String.prototype.startsWith\<close>\<close>

definition startsWith :: "string \<Rightarrow> string \<Rightarrow> bool" where
  "startsWith s p = (take (length p) s = p)"

section \<open>Errors, promises and the collaborators' interfaces\<close>

text \<open>
  \<open>TypeMismatch\<close> is what the assertions of \<open>lib/assert\<close> throw, \<open>TypeError\<close> what the
  engine throws on a property access on \<open>undefined\<close>, and \<open>Failure\<close> any reason a
  handler rejects its promise with.
\<close>

datatype jserror = TypeMismatch | TypeError | Failure string

datatype response = Response string

text \<open>A promise is given by how it settles, if it ever does.\<close>

datatype promise = Fulfilled response | Rejected jserror | Pending

record URL =
  protocol :: string
  href :: string

text \<open>
  \<open>new URL(event.request.url)\<close>: the url of a request is a serialised absolute URL, so
  its protocol is the text up to and including the first colon.
\<close>

definition new_URL :: "string \<Rightarrow> URL" where
  "new_URL s = \<lparr>protocol = takeWhile (\<lambda>c. c \<noteq> CHR '':'') s @ '':'', href = s\<rparr>"

record Request =
  request_url :: string
  request_method :: string

record FetchEvent =
  request :: Request

text \<open>The argument \<open>{url, event}\<close> of \<open>match\<close>.\<close>

record routeContext =
  url :: URL
  event :: FetchEvent

text \<open>
  The argument of \<open>handle\<close>: \<open>{url, event, params}\<close> for the selected handler,
  \<open>{url, event, error}\<close> for the catch handler. A missing property reads as
  \<open>undefined\<close>: \<open>JUndefined\<close> for \<open>params\<close>, \<open>None\<close> for \<open>error\<close>.
\<close>

record handleContext = routeContext +
  params :: jsval
  error :: "jserror option"

text \<open>
  Handlers and routes are objects, compared by reference: \<open>hid\<close> and \<open>rid\<close> are their
  addresses. \<open>handle\<close> returns a promise and \<open>match\<close> returns a value, as the
  interfaces of the two collaborators say.
\<close>

record Handler =
  hid :: nat
  handle :: "handleContext \<Rightarrow> promise"

record Route =
  rid :: nat
  "method" :: string
  match :: "routeContext \<Rightarrow> jsval"
  handler :: Handler

text \<open>
  What a call of the router does to the outside, in order: the messages given to
  \<open>logHelper.log\<close> and \<open>logHelper.error\<close>, and the calls of \<open>match\<close> (with the route's
  address) and of \<open>handle\<close> (with the handler's address).
\<close>

datatype diagnostic =
    UrlNotHttp
  | FoundMatchingRoute nat
  | NoRoutesForMethod string
  | RouteNotRegistered nat

datatype call =
    Log diagnostic
  | LogError diagnostic
  | MatchCall nat routeContext
  | HandleCall nat handleContext

section \<open>The router's state\<close>

text \<open>
  \<open>this._routes\<close> is a \<open>Map\<close> from method name to an array of routes: an association
  list with distinct keys, in insertion order.
\<close>

record Router =
  routes :: "(string \<times> Route list) list"
  defaultHandler :: "Handler option"
  catchHandler :: "Handler option"

definition Router_new :: Router where
  "Router_new = \<lparr>routes = [], defaultHandler = None, catchHandler = None\<rparr>"

definition Map_get :: "'k \<Rightarrow> ('k \<times> 'v) list \<Rightarrow> 'v option" where
  "Map_get k m = map_of m k"

definition Map_has :: "'k \<Rightarrow> ('k \<times> 'v) list \<Rightarrow> bool" where
  "Map_has k m = (case map_of m k of None \<Rightarrow> False | Some v \<Rightarrow> True)"

primrec Map_set :: "'k \<Rightarrow> 'v \<Rightarrow> ('k \<times> 'v) list \<Rightarrow> ('k \<times> 'v) list" where
  "Map_set k v [] = [(k, v)]"
| "Map_set k v (p # ps) = (if fst p = k then (k, v) # ps else p # Map_set k v ps)"

section \<open>Argument checks\<close>

text \<open>
  An argument handed to the router is an instance of the class the router expects,
  or it is anything else; an array argument is an array of such values, or not an
  array.
\<close>

datatype 'a jsarg = Instance 'a | NotInstance

datatype 'a jsarray = AnArray "'a jsarg list" | NotAnArray

text \<open>
  Modelled from the spec: \<open>isInstance\<close> of \<open>lib/assert\<close>, which is not among the
  sources. The call fails with a TypeMismatch error when the value is not of the
  expected shape, and passes otherwise.
\<close>

fun isInstance :: "'a jsarg \<Rightarrow> jserror + 'a" where
  "isInstance (Instance x) = Inr x"
| "isInstance NotInstance = Inl TypeMismatch"

text \<open>
  Modelled from the spec: \<open>isArrayOfClass\<close> of \<open>lib/assert\<close>, which is not among the
  sources. The call fails with a TypeMismatch error if any element is not of the
  expected shape (or the value is no array), and passes otherwise.
\<close>

fun allInstances :: "'a jsarg list \<Rightarrow> jserror + 'a list" where
  "allInstances [] = Inr []"
| "allInstances (x # xs) =
     (case isInstance x of
        Inl e \<Rightarrow> Inl e
      | Inr y \<Rightarrow> (case allInstances xs of Inl e \<Rightarrow> Inl e | Inr ys \<Rightarrow> Inr (y # ys)))"

fun isArrayOfClass :: "'a jsarray \<Rightarrow> jserror + 'a list" where
  "isArrayOfClass (AnArray xs) = allInstances xs"
| "isArrayOfClass NotAnArray = Inl TypeMismatch"

section \<open>Dispatch\<close>

text \<open>
  The loop of \<open>_findHandlerAndParams\<close> over the routes of the request's method. It
  returns \<open>{handler, params}\<close> and the calls it made.
\<close>

fun findLoop :: "Route list \<Rightarrow> routeContext \<Rightarrow> (Handler option \<times> jsval) \<times> call list" where
  "findLoop [] c = ((None, JUndefined), [])"
| "findLoop (route # rest) c =
     (let matchResult = match route c in
      if truthy matchResult then
        ((Some (handler route),
          (if isEmptyArray matchResult then JUndefined
           else if isEmptyPlainObject matchResult then JUndefined
           else matchResult)),
         [MatchCall (rid route) c, Log (FoundMatchingRoute (rid route))])
      else
        (case findLoop rest c of (found, calls) \<Rightarrow> (found, MatchCall (rid route) c # calls)))"

definition findHandlerAndParams ::
  "Router \<Rightarrow> routeContext \<Rightarrow> (Handler option \<times> jsval) \<times> call list" where
  "findHandlerAndParams this c =
     findLoop
       (case Map_get (request_method (request (event c))) (routes this) of
          None \<Rightarrow> []
        | Some rs \<Rightarrow> rs)
       c"

text \<open>
  \<open>responsePromise.catch(f)\<close>: a rejected promise settles as the promise \<open>f\<close>
  returns for the reason of the rejection; any other promise is left as it is.
\<close>

fun promise_catch :: "promise \<Rightarrow> (jserror \<Rightarrow> promise) \<Rightarrow> promise" where
  "promise_catch (Rejected e) f = f e"
| "promise_catch p f = p"

text \<open>
  \<open>handleRequest\<close> returns what it throws or returns (\<open>None\<close> is \<open>undefined\<close>), the
  router after the call, and the calls made before it returns.
\<close>

definition handleRequest ::
  "Router \<Rightarrow> FetchEvent jsarg \<Rightarrow> (jserror + promise option) \<times> Router \<times> call list" where
  "handleRequest this arg =
     (case isInstance arg of
        Inl e \<Rightarrow> (Inl e, this, [])
      | Inr ev \<Rightarrow>
          (let u = new_URL (request_url (request ev)) in
           if \<not> startsWith (protocol u) ''http'' then (Inr None, this, [Log UrlNotHttp])
           else
             (case findHandlerAndParams this \<lparr>url = u, event = ev\<rparr> of
                ((found, ps), calls) \<Rightarrow>
                  (let selected = (case found of
                              None \<Rightarrow> (case defaultHandler this of None \<Rightarrow> None | Some d \<Rightarrow> Some d)
                            | Some f \<Rightarrow> Some f)
                   in case selected of
                        None \<Rightarrow> (Inr None, this, calls)
                      | Some h \<Rightarrow>
                          (let c = \<lparr>url = u, event = ev, params = ps, error = None\<rparr>;
                               responsePromise = handle h c;
                               responsePromise' =
                                 (case catchHandler this of
                                    None \<Rightarrow> responsePromise
                                  | Some ch \<Rightarrow>
                                      promise_catch responsePromise
                                        (\<lambda>e. handle ch
                                           \<lparr>url = u, event = ev, params = JUndefined,
                                            error = Some e\<rparr>))
                           in (Inr (Some responsePromise'), this, calls @ [HandleCall (hid h) c]))))))"

section \<open>Registering and unregistering routes\<close>

text \<open>
  The loop of \<open>registerRoutes\<close>. \<open>this._routes.get(route.method).unshift(route)\<close>
  changes the array held by the map in place; on \<open>undefined\<close> it would throw.
\<close>

fun registerLoop ::
  "Route list \<Rightarrow> (string \<times> Route list) list \<Rightarrow> jserror option \<times> (string \<times> Route list) list" where
  "registerLoop [] m = (None, m)"
| "registerLoop (route # rest) m =
     (let m1 = (if \<not> Map_has (method route) m then Map_set (method route) [] m else m) in
      case Map_get (method route) m1 of
        None \<Rightarrow> (Some TypeError, m1)
      | Some bucket \<Rightarrow> registerLoop rest (Map_set (method route) (route # bucket) m1))"

definition registerRoutes ::
  "Router \<Rightarrow> Route jsarray \<Rightarrow> (jserror + unit) \<times> Router \<times> call list" where
  "registerRoutes this arg =
     (case isArrayOfClass arg of
        Inl e \<Rightarrow> (Inl e, this, [])
      | Inr rs \<Rightarrow>
          (case registerLoop rs (routes this) of
             (None, m) \<Rightarrow> (Inr (), this\<lparr>routes := m\<rparr>, [])
           | (Some e, m) \<Rightarrow> (Inl e, this\<lparr>routes := m\<rparr>, [])))"

definition registerRoute ::
  "Router \<Rightarrow> Route jsarg \<Rightarrow> (jserror + unit) \<times> Router \<times> call list" where
  "registerRoute this arg =
     (case isInstance arg of
        Inl e \<Rightarrow> (Inl e, this, [])
      | Inr route \<Rightarrow> registerRoutes this (AnArray [Instance route]))"

text \<open>\<open>Array.prototype.indexOf\<close> on routes: strict equality is equality of addresses.\<close>

fun indexOfFrom :: "Route list \<Rightarrow> Route \<Rightarrow> int \<Rightarrow> int" where
  "indexOfFrom [] x i = - 1"
| "indexOfFrom (y # ys) x i = (if rid y = rid x then i else indexOfFrom ys x (i + 1))"

definition indexOf :: "Route list \<Rightarrow> Route \<Rightarrow> int" where
  "indexOf xs x = indexOfFrom xs x 0"

text \<open>\<open>xs.splice(i, n)\<close>, as it leaves \<open>xs\<close>.\<close>

definition splice :: "'a list \<Rightarrow> nat \<Rightarrow> nat \<Rightarrow> 'a list" where
  "splice xs i n = take i xs @ drop (i + n) xs"

text \<open>
  The loop of \<open>unregisterRoutes\<close>. After the message about a method without routes the
  loop body goes on to \<open>this._routes.get(route.method).indexOf(route)\<close>, which throws
  on \<open>undefined\<close>.
\<close>

fun unregisterLoop ::
  "Route list \<Rightarrow> (string \<times> Route list) list \<Rightarrow>
     jserror option \<times> (string \<times> Route list) list \<times> call list" where
  "unregisterLoop [] m = (None, m, [])"
| "unregisterLoop (route # rest) m =
     (let logged =
            (if \<not> Map_has (method route) m then [LogError (NoRoutesForMethod (method route))]
             else [])
      in case Map_get (method route) m of
           None \<Rightarrow> (Some TypeError, m, logged)
         | Some bucket \<Rightarrow>
             (let routeIndex = indexOf bucket route in
              if routeIndex > - 1 then
                (case unregisterLoop rest
                        (Map_set (method route) (splice bucket (nat routeIndex) 1) m) of
                   (e, m', calls) \<Rightarrow> (e, m', logged @ calls))
              else
                (case unregisterLoop rest m of
                   (e, m', calls) \<Rightarrow>
                     (e, m', logged @ LogError (RouteNotRegistered (rid route)) # calls))))"

definition unregisterRoutes ::
  "Router \<Rightarrow> Route jsarray \<Rightarrow> (jserror + unit) \<times> Router \<times> call list" where
  "unregisterRoutes this arg =
     (case isArrayOfClass arg of
        Inl e \<Rightarrow> (Inl e, this, [])
      | Inr rs \<Rightarrow>
          (case unregisterLoop rs (routes this) of
             (None, m, calls) \<Rightarrow> (Inr (), this\<lparr>routes := m\<rparr>, calls)
           | (Some e, m, calls) \<Rightarrow> (Inl e, this\<lparr>routes := m\<rparr>, calls)))"

definition unregisterRoute ::
  "Router \<Rightarrow> Route jsarg \<Rightarrow> (jserror + unit) \<times> Router \<times> call list" where
  "unregisterRoute this arg =
     (case isInstance arg of
        Inl e \<Rightarrow> (Inl e, this, [])
      | Inr route \<Rightarrow> unregisterRoutes this (AnArray [Instance route]))"

section \<open>Example objects\<close>

text \<open>
  Concrete handlers, routes and events on which the theorems below are instantiated.
  An example route matches the URLs that start with a prefix and then returns the
  given value; otherwise it returns \<open>null\<close>.
\<close>

definition exHandler :: "nat \<Rightarrow> promise \<Rightarrow> Handler" where
  "exHandler a p = \<lparr>hid = a, handle = (\<lambda>c. p)\<rparr>"

definition exCatchHandler :: "nat \<Rightarrow> Handler" where
  "exCatchHandler a =
     \<lparr>hid = a,
      handle = (\<lambda>c. case error c of
                       Some (Failure s) \<Rightarrow> Fulfilled (Response (''recovered from '' @ s))
                     | Some e \<Rightarrow> Rejected e
                     | None \<Rightarrow> Pending)\<rparr>"

definition exRoute :: "nat \<Rightarrow> string \<Rightarrow> string \<Rightarrow> jsval \<Rightarrow> Handler \<Rightarrow> Route" where
  "exRoute a m prefix v h =
     \<lparr>rid = a, method = m,
      match = (\<lambda>c. if startsWith (href (url c)) prefix then v else JNull),
      handler = h\<rparr>"

definition exEvent :: "string \<Rightarrow> string \<Rightarrow> FetchEvent" where
  "exEvent m u = \<lparr>request = \<lparr>request_url = u, request_method = m\<rparr>\<rparr>"

definition exImages :: Route where
  "exImages =
     exRoute 1 ''GET'' ''https://example.com/images/'' (JArray [])
       (exHandler 11 (Fulfilled (Response ''images'')))"

definition exLogo :: Route where
  "exLogo =
     exRoute 2 ''GET'' ''https://example.com/images/logo.png'' (JObject [(''file'', JStr ''logo'')])
       (exHandler 12 (Rejected (Failure ''logo'')))"

definition exSite :: Route where
  "exSite =
     exRoute 3 ''GET'' ''https://example.com/'' (JBool True)
       (exHandler 13 (Fulfilled (Response ''site'')))"

definition exUpload :: Route where
  "exUpload =
     exRoute 4 ''POST'' ''https://example.com/upload'' (JObject [])
       (exHandler 14 (Fulfilled (Response ''upload'')))"

definition exLogoEvent :: FetchEvent where
  "exLogoEvent = exEvent ''GET'' ''https://example.com/images/logo.png''"

definition exStyles :: Route where
  "exStyles =
     exRoute 5 ''GET'' ''https://example.com/css/'' (JBool True)
       (exHandler 15 (Fulfilled (Response ''styles'')))"

definition exLogoContext :: routeContext where
  "exLogoContext = \<lparr>url = new_URL (request_url (request exLogoEvent)), event = exLogoEvent\<rparr>"

definition exExtensionEvent :: FetchEvent where
  "exExtensionEvent = exEvent ''GET'' ''chrome-extension://abc/page.html''"

text \<open>A router holding routes for GET, with or without a default and a catch handler.\<close>

definition exRouter :: "Route list \<Rightarrow> Handler option \<Rightarrow> Handler option \<Rightarrow> Router" where
  "exRouter rs d c = \<lparr>routes = [(''GET'', rs)], defaultHandler = d, catchHandler = c\<rparr>"

text \<open>
  The router after \<open>registerRoute\<close> of \<open>exImages\<close>, then of \<open>exLogo\<close>, then of
  \<open>exSite\<close>: three GET routes that all match the URL of \<open>exLogoEvent\<close>.
\<close>

definition exThreeRoutes :: Router where
  "exThreeRoutes =
     fst (snd (registerRoute
       (fst (snd (registerRoute
          (fst (snd (registerRoute Router_new (Instance exImages))))
          (Instance exLogo))))
       (Instance exSite)))"

text \<open>
  Two POST routes that match the URL of \<open>exLogoEvent\<close>, and the router after
  \<open>registerRoute\<close> of \<open>exForms\<close>, then of \<open>exArchive\<close>.
\<close>

definition exForms :: Route where
  "exForms =
     exRoute 6 ''POST'' ''https://example.com/images/'' (JBool True)
       (exHandler 16 (Fulfilled (Response ''forms'')))"

definition exArchive :: Route where
  "exArchive =
     exRoute 7 ''POST'' ''https://example.com/'' (JBool True)
       (exHandler 17 (Fulfilled (Response ''archive'')))"

definition exTwoPost :: Router where
  "exTwoPost =
     fst (snd (registerRoute
       (fst (snd (registerRoute Router_new (Instance exForms))))
       (Instance exArchive)))"

lemmas ex_defs =
  exHandler_def exCatchHandler_def exRoute_def exEvent_def exImages_def exLogo_def
  exSite_def exUpload_def exLogoEvent_def exStyles_def exLogoContext_def
  exExtensionEvent_def exRouter_def Router_new_def new_URL_def startsWith_def

section \<open>Lemmas about the loops\<close>

lemma map_of_Map_set: "map_of (Map_set k v m) k' = (if k' = k then Some v else map_of m k')"
  by (induction m) auto

lemma registerLoop_ok:
  "fst (registerLoop rs m) = None \<and>
   map_of (snd (registerLoop rs m)) k =
     (if filter (\<lambda>r. method r = k) rs = [] then map_of m k
      else Some (rev (filter (\<lambda>r. method r = k) rs) @ (case map_of m k of None \<Rightarrow> [] | Some b \<Rightarrow> b)))"
proof (induction rs arbitrary: m)
  case Nil
  show ?case by simp
next
  case (Cons r rs)
  show ?case
  proof (cases "map_of m (method r)")
    case None
    then have step: "registerLoop (r # rs) m = registerLoop rs (Map_set (method r) [r] (Map_set (method r) [] m))"
      by (simp add: Map_has_def Map_get_def map_of_Map_set)
    show ?thesis
      unfolding step using None by (auto simp add: Cons.IH map_of_Map_set)
  next
    case (Some b)
    then have step: "registerLoop (r # rs) m = registerLoop rs (Map_set (method r) (r # b) m)"
      by (simp add: Map_has_def Map_get_def)
    show ?thesis
      unfolding step using Some by (auto simp add: Cons.IH map_of_Map_set)
  qed
qed

lemma registerLoop_Cons: "registerLoop (r # rs) m = registerLoop rs (snd (registerLoop [r] m))"
  by (cases "map_of m (method r)") (simp_all add: Map_has_def Map_get_def map_of_Map_set)

lemma allInstances_map_Instance: "allInstances (map Instance rs) = Inr rs"
  by (induction rs) simp_all

lemma allInstances_fails: "NotInstance \<in> set xs \<Longrightarrow> allInstances xs = Inl TypeMismatch"
proof (induction xs)
  case Nil
  then show ?case by simp
next
  case (Cons a xs)
  show ?case
  proof (cases a)
    case (Instance r)
    with Cons show ?thesis by simp
  next
    case NotInstance
    then show ?thesis by simp
  qed
qed

lemma registerRoutes_valid:
  "registerRoutes this (AnArray (map Instance rs)) =
     (Inr (), this\<lparr>routes := snd (registerLoop rs (routes this))\<rparr>, [])"
proof -
  obtain e m where em: "registerLoop rs (routes this) = (e, m)" by (cases "registerLoop rs (routes this)")
  with registerLoop_ok [of rs "routes this"] have "e = None" by simp
  with em show ?thesis by (simp add: registerRoutes_def allInstances_map_Instance)
qed

lemma registerRoute_valid:
  "registerRoute this (Instance r) =
     (Inr (), this\<lparr>routes := snd (registerLoop [r] (routes this))\<rparr>, [])"
  using registerRoutes_valid [of this "[r]"] by (simp add: registerRoute_def)

lemma registerRoutes_fold:
  "registerRoutes this (AnArray (map Instance rs)) =
     fold (\<lambda>r st. registerRoute (fst (snd st)) (Instance r)) rs (Inr (), this, [])"
proof (induction rs arbitrary: this)
  case Nil
  show ?case using registerRoutes_valid [of this "[]"] by simp
next
  case (Cons r rs)
  have "fold (\<lambda>r st. registerRoute (fst (snd st)) (Instance r)) (r # rs) (Inr (), this, []) =
        fold (\<lambda>r st. registerRoute (fst (snd st)) (Instance r)) rs
          (Inr (), this\<lparr>routes := snd (registerLoop [r] (routes this))\<rparr>, [])"
    by (simp add: registerRoute_valid)
  also have "\<dots> = registerRoutes (this\<lparr>routes := snd (registerLoop [r] (routes this))\<rparr>) (AnArray (map Instance rs))"
    by (rule Cons.IH [symmetric])
  also have "\<dots> = registerRoutes this (AnArray (map Instance (r # rs)))"
    unfolding registerRoutes_valid
    by (simp del: registerLoop.simps add: registerLoop_Cons [of r rs "routes this"])
  finally show ?case by simp
qed

lemma findLoop_first_match:
  assumes "\<forall>x \<in> set pre. \<not> truthy (match x c)" and "truthy (match r c)"
  shows "findLoop (pre @ r # post) c =
    ((Some (handler r),
      (if isEmptyArray (match r c) then JUndefined
       else if isEmptyPlainObject (match r c) then JUndefined else match r c)),
     map (\<lambda>x. MatchCall (rid x) c) pre @ [MatchCall (rid r) c, Log (FoundMatchingRoute (rid r))])"
  using assms by (induction pre) (simp_all add: Let_def)

lemma findLoop_no_match:
  assumes "\<forall>x \<in> set rs. \<not> truthy (match x c)"
  shows "findLoop rs c = ((None, JUndefined), map (\<lambda>x. MatchCall (rid x) c) rs)"
  using assms by (induction rs) (simp_all add: Let_def)

lemma isEmptyArray_iff: "isEmptyArray v \<longleftrightarrow> v = JArray []"
  by (cases v) simp_all

lemma isEmptyPlainObject_iff: "isEmptyPlainObject v \<longleftrightarrow> v = JObject []"
  by (cases v) simp_all

lemma handleRequest_first_match:
  assumes "startsWith (protocol (new_URL (request_url (request ev)))) ''http''"
    and "c = \<lparr>url = new_URL (request_url (request ev)), event = ev\<rparr>"
    and "Map_get (request_method (request ev)) (routes this) = Some (pre @ r # post)"
    and "\<forall>x \<in> set pre. \<not> truthy (match x c)"
    and "truthy (match r c)"
    and "hc = \<lparr>url = url c, event = ev,
               params = (if match r c = JArray [] \<or> match r c = JObject [] then JUndefined
                         else match r c),
               error = None\<rparr>"
  shows "handleRequest this (Instance ev) =
     (Inr (Some (case catchHandler this of
                   None \<Rightarrow> handle (handler r) hc
                 | Some ch \<Rightarrow>
                     promise_catch (handle (handler r) hc)
                       (\<lambda>e. handle ch \<lparr>url = url c, event = ev, params = JUndefined,
                                       error = Some e\<rparr>))),
      this,
      map (\<lambda>x. MatchCall (rid x) c) pre @
      [MatchCall (rid r) c, Log (FoundMatchingRoute (rid r)), HandleCall (hid (handler r)) hc])"
  using assms
  by (simp add: handleRequest_def findHandlerAndParams_def findLoop_first_match
      isEmptyArray_iff isEmptyPlainObject_iff Let_def split: option.splits)

lemma fold_registerRoute:
  "fold (\<lambda>r st. registerRoute (fst (snd st)) (Instance r)) rs (Inr (), this, []) =
     (Inr (), this\<lparr>routes := snd (registerLoop rs (routes this))\<rparr>, [])"
  using registerRoutes_fold [of this rs] registerRoutes_valid [of this rs] by simp

lemma exLogo_http: "startsWith (protocol (new_URL (request_url (request exLogoEvent)))) ''http''"
  by (simp add: ex_defs)

lemma exLogoContext_eq:
  "exLogoContext = \<lparr>url = new_URL (request_url (request exLogoEvent)), event = exLogoEvent\<rparr>"
  by (simp add: exLogoContext_def)

lemma exThreeRoutes_eq: "exThreeRoutes = exRouter [exSite, exLogo, exImages] None None"
  by (simp add: exThreeRoutes_def registerRoute_valid Map_has_def Map_get_def ex_defs)

text \<open>
  \<open>unregisterRoute\<close> on a route that is not in the bucket of its method, and on a
  route whose method has no bucket.
\<close>

lemma indexOfFrom_absent: "rid r \<notin> rid ` set b \<Longrightarrow> indexOfFrom b r i = - 1"
  by (induction b arbitrary: i) auto

lemma unregisterRoute_not_in_bucket:
  assumes "Map_get (method r) (routes this) = Some b" and "rid r \<notin> rid ` set b"
  shows "unregisterRoute this (Instance r) = (Inr (), this, [LogError (RouteNotRegistered (rid r))])"
  using assms
  by (simp add: unregisterRoute_def unregisterRoutes_def Map_has_def Map_get_def indexOf_def
      indexOfFrom_absent)

lemma unregisterRoute_no_bucket:
  assumes "Map_get (method r) (routes this) = None"
  shows "unregisterRoute this (Instance r) =
           (Inl TypeError, this, [LogError (NoRoutesForMethod (method r))])"
  using assms
  by (simp add: unregisterRoute_def unregisterRoutes_def Map_has_def Map_get_def)

section \<open>Properties of the dispatch\<close>

text \<open>
  C4. A request whose URL's protocol does not start with \<open>http\<close> makes
  \<open>handleRequest\<close> return \<open>undefined\<close>: the only call made is the log message, so no
  route's \<open>match\<close> and no handler's \<open>handle\<close> is called, whatever routes, default
  handler and catch handler the router holds.
\<close>

theorem handleRequest_not_http:
  assumes "\<not> startsWith (protocol (new_URL (request_url (request ev)))) ''http''"
  shows "handleRequest this (Instance ev) = (Inr None, this, [Log UrlNotHttp])"
  using assms by (simp add: handleRequest_def)

theorem handleRequest_not_http_witness:
  "\<not> startsWith (protocol (new_URL (request_url (request exExtensionEvent)))) ''http'' \<and>
   handleRequest (exRouter [exSite] (Some (handler exImages)) (Some (exCatchHandler 20)))
       (Instance exExtensionEvent) =
     (Inr None, exRouter [exSite] (Some (handler exImages)) (Some (exCatchHandler 20)),
      [Log UrlNotHttp])"
  using handleRequest_not_http
    [of exExtensionEvent "exRouter [exSite] (Some (handler exImages)) (Some (exCatchHandler 20))"]
  by (simp add: ex_defs)

text \<open>
  C1, as amended. Routes are registered one after the other with \<open>registerRoute\<close>:
  \<open>R1\<close>, then any routes, then \<open>R2\<close>, then any routes. \<open>R1\<close> and \<open>R2\<close> are on the
  method of the request and both match it. If no route registered after \<open>R2\<close> on that
  method matches the request, and the URL's protocol starts with \<open>http\<close>, then
  \<open>handleRequest\<close> calls \<open>handle\<close> of the handler of \<open>R2\<close>, with the parameters of
  the match of \<open>R2\<close>, and returns its promise (with the catch handler attached when
  there is one). The routes asked before \<open>R2\<close> are the later ones of that method,
  latest first.
\<close>

theorem latest_matching_route_wins:
  assumes http: "startsWith (protocol (new_URL (request_url (request ev)))) ''http''"
    and c: "c = \<lparr>url = new_URL (request_url (request ev)), event = ev\<rparr>"
    and m1: "method R1 = request_method (request ev)"
    and m2: "method R2 = request_method (request ev)"
    and reg: "this = fst (snd (fold (\<lambda>r st. registerRoute (fst (snd st)) (Instance r))
                                 (R1 # between @ R2 # later) (Inr (), initial, [])))"
    and t1: "truthy (match R1 c)"
    and t2: "truthy (match R2 c)"
    and later: "\<forall>x \<in> set later. method x = method R2 \<longrightarrow> \<not> truthy (match x c)"
    and hc: "hc = \<lparr>url = url c, event = ev,
               params = (if match R2 c = JArray [] \<or> match R2 c = JObject [] then JUndefined
                         else match R2 c),
               error = None\<rparr>"
  shows "handleRequest this (Instance ev) =
     (Inr (Some (case catchHandler this of
                   None \<Rightarrow> handle (handler R2) hc
                 | Some ch \<Rightarrow>
                     promise_catch (handle (handler R2) hc)
                       (\<lambda>e. handle ch \<lparr>url = url c, event = ev, params = JUndefined,
                                       error = Some e\<rparr>))),
      this,
      map (\<lambda>x. MatchCall (rid x) c) (rev (filter (\<lambda>x. method x = method R2) later)) @
      [MatchCall (rid R2) c, Log (FoundMatchingRoute (rid R2)),
       HandleCall (hid (handler R2)) hc])"
proof -
  let ?k = "request_method (request ev)"
  let ?old = "case map_of (routes initial) ?k of None \<Rightarrow> [] | Some b \<Rightarrow> b"
  have routes: "routes this = snd (registerLoop (R1 # between @ R2 # later) (routes initial))"
    unfolding reg fold_registerRoute by simp
  have "map_of (routes this) ?k =
          Some (rev (filter (\<lambda>x. method x = ?k) (R1 # between @ R2 # later)) @ ?old)"
    unfolding routes using registerLoop_ok [of "R1 # between @ R2 # later" "routes initial" ?k] m1
    by simp
  then have bucket: "Map_get ?k (routes this) =
      Some (rev (filter (\<lambda>x. method x = method R2) later) @
            R2 # (rev (filter (\<lambda>x. method x = ?k) between) @ R1 # ?old))"
    using m1 m2 by (simp add: Map_get_def)
  have pre: "\<forall>x \<in> set (rev (filter (\<lambda>x. method x = method R2) later)). \<not> truthy (match x c)"
    using later by simp
  show ?thesis
    by (rule handleRequest_first_match [OF http c bucket pre t2 hc])
qed

theorem latest_matching_route_wins_witness:
  "truthy (match exImages exLogoContext) \<and> truthy (match exLogo exLogoContext) \<and>
   \<not> truthy (match exStyles exLogoContext) \<and> method exUpload \<noteq> method exLogo \<and>
   handleRequest
     (fst (snd (fold (\<lambda>r st. registerRoute (fst (snd st)) (Instance r))
                  (exImages # [exUpload] @ exLogo # [exStyles, exUpload])
                  (Inr (), exRouter [exSite] None (Some (exCatchHandler 20)), []))))
     (Instance exLogoEvent) =
   (Inr (Some (Fulfilled (Response ''recovered from logo''))),
    fst (snd (fold (\<lambda>r st. registerRoute (fst (snd st)) (Instance r))
                  (exImages # [exUpload] @ exLogo # [exStyles, exUpload])
                  (Inr (), exRouter [exSite] None (Some (exCatchHandler 20)), []))),
    [MatchCall 5 exLogoContext, MatchCall 2 exLogoContext, Log (FoundMatchingRoute 2),
     HandleCall 12 \<lparr>url = url exLogoContext, event = exLogoEvent,
                    params = JObject [(''file'', JStr ''logo'')], error = None\<rparr>])"
proof -
  let ?router = "fst (snd (fold (\<lambda>r st. registerRoute (fst (snd st)) (Instance r))
                  (exImages # [exUpload] @ exLogo # [exStyles, exUpload])
                  (Inr (), exRouter [exSite] None (Some (exCatchHandler 20)), [])))"
  have m1: "method exImages = request_method (request exLogoEvent)"
    and m2: "method exLogo = request_method (request exLogoEvent)"
    by (simp_all add: ex_defs)
  have t1: "truthy (match exImages exLogoContext)"
    and t2: "truthy (match exLogo exLogoContext)"
    and n1: "\<not> truthy (match exStyles exLogoContext)"
    and n2: "method exUpload \<noteq> method exLogo"
    by (simp_all add: ex_defs)
  have later: "\<forall>x \<in> set [exStyles, exUpload].
      method x = method exLogo \<longrightarrow> \<not> truthy (match x exLogoContext)"
    using n1 n2 by simp
  have c: "catchHandler ?router = Some (exCatchHandler 20)"
    unfolding fold_registerRoute by (simp add: exRouter_def)
  have v: "match exLogo exLogoContext = JObject [(''file'', JStr ''logo'')]"
    "rid exStyles = 5" "rid exLogo = 2" "hid (handler exLogo) = 12"
    "method exStyles = method exLogo"
    "handle (handler exLogo) = (\<lambda>c. Rejected (Failure ''logo''))"
    by (simp_all add: ex_defs)
  show ?thesis
    using latest_matching_route_wins
      [where between = "[exUpload]"
         and initial = "exRouter [exSite] None (Some (exCatchHandler 20))",
       OF exLogo_http exLogoContext_eq m1 m2 refl t1 t2 later refl]
      t1 t2 n1 n2 c
    by (simp add: v exCatchHandler_def)
qed

text \<open>
  C1 as it is stated, for every two routes, does not hold: with \<open>exImages\<close>, \<open>exLogo\<close>
  and \<open>exSite\<close> registered in this order on GET, \<open>exLogo\<close> is registered after
  \<open>exImages\<close> and both match the request, but a third route registered later matches
  too, so the handler called is that of \<open>exSite\<close> (address 13): \<open>handle\<close> of the
  handler of \<open>exLogo\<close> is not called, and the result is not its promise.
\<close>

theorem later_route_wins_counterexample:
  "method exImages = ''GET'' \<and> method exLogo = ''GET'' \<and>
   request_method (request exLogoEvent) = ''GET'' \<and>
   truthy (match exImages exLogoContext) \<and> truthy (match exLogo exLogoContext) \<and>
   routes exThreeRoutes = [(''GET'', [exSite, exLogo, exImages])] \<and>
   handleRequest exThreeRoutes (Instance exLogoEvent) =
     (Inr (Some (Fulfilled (Response ''site''))), exThreeRoutes,
      [MatchCall 3 exLogoContext, Log (FoundMatchingRoute 3),
       HandleCall 13 \<lparr>url = url exLogoContext, event = exLogoEvent, params = JBool True,
                      error = None\<rparr>]) \<and>
   HandleCall (hid (handler exLogo))
     \<lparr>url = url exLogoContext, event = exLogoEvent,
      params = JObject [(''file'', JStr ''logo'')], error = None\<rparr>
     \<notin> set (snd (snd (handleRequest exThreeRoutes (Instance exLogoEvent)))) \<and>
   fst (handleRequest exThreeRoutes (Instance exLogoEvent)) \<noteq>
     Inr (Some (handle (handler exLogo)
       \<lparr>url = url exLogoContext, event = exLogoEvent,
        params = JObject [(''file'', JStr ''logo'')], error = None\<rparr>))"
proof -
  have "handleRequest (exRouter [exSite, exLogo, exImages] None None) (Instance exLogoEvent) =
     (Inr (Some (Fulfilled (Response ''site''))), exRouter [exSite, exLogo, exImages] None None,
      [MatchCall 3 exLogoContext, Log (FoundMatchingRoute 3),
       HandleCall 13 \<lparr>url = url exLogoContext, event = exLogoEvent, params = JBool True,
                      error = None\<rparr>])"
    by (simp add: handleRequest_def findHandlerAndParams_def Map_get_def Let_def ex_defs)
  moreover have "routes (exRouter [exSite, exLogo, exImages] None None) =
      [(''GET'', [exSite, exLogo, exImages])]"
    by (simp add: exRouter_def)
  moreover have "method exImages = ''GET''" "method exLogo = ''GET''"
    "request_method (request exLogoEvent) = ''GET''"
    "truthy (match exImages exLogoContext)" "truthy (match exLogo exLogoContext)"
    "hid (handler exLogo) = 12"
    "handle (handler exLogo)
     \<lparr>url = url exLogoContext, event = exLogoEvent,
      params = JObject [(''file'', JStr ''logo'')], error = None\<rparr> = Rejected (Failure ''logo'')"
    by (simp_all add: ex_defs)
  ultimately show ?thesis unfolding exThreeRoutes_eq by simp
qed

text \<open>
  The routes asked are those of the request's method only: \<open>exForms\<close> and
  \<open>exArchive\<close> are registered on POST, one after the other, and both match the URL of
  the GET request \<open>exLogoEvent\<close>, yet no \<open>match\<close> and no \<open>handle\<close> is called and
  \<open>handleRequest\<close> returns \<open>undefined\<close>. So the precedence among two routes of one
  method is a statement about requests of that method.
\<close>

lemma other_method_routes_not_asked:
  "method exForms = ''POST'' \<and> method exArchive = ''POST'' \<and>
   request_method (request exLogoEvent) = ''GET'' \<and>
   truthy (match exForms exLogoContext) \<and> truthy (match exArchive exLogoContext) \<and>
   routes exTwoPost = [(''POST'', [exArchive, exForms])] \<and>
   handleRequest exTwoPost (Instance exLogoEvent) = (Inr None, exTwoPost, [])"
proof -
  have eq: "exTwoPost =
      \<lparr>routes = [(''POST'', [exArchive, exForms])], defaultHandler = None, catchHandler = None\<rparr>"
    by (simp add: exTwoPost_def registerRoute_valid Map_has_def Map_get_def exForms_def
        exArchive_def ex_defs)
  have "handleRequest
          \<lparr>routes = [(''POST'', [exArchive, exForms])], defaultHandler = None, catchHandler = None\<rparr>
          (Instance exLogoEvent) =
        (Inr None,
         \<lparr>routes = [(''POST'', [exArchive, exForms])], defaultHandler = None, catchHandler = None\<rparr>,
         [])"
    by (simp add: handleRequest_def findHandlerAndParams_def Map_get_def Let_def ex_defs)
  moreover have "method exForms = ''POST''" "method exArchive = ''POST''"
    "request_method (request exLogoEvent) = ''GET''"
    "truthy (match exForms exLogoContext)" "truthy (match exArchive exLogoContext)"
    by (simp_all add: exForms_def exArchive_def ex_defs)
  ultimately show ?thesis unfolding eq by simp
qed

text \<open>
  C3. When the first matching route of the request's method returns an empty array
  or an empty plain object, the \<open>params\<close> handed to \<open>handle\<close> of its handler are
  \<open>undefined\<close>; any other truthy result of \<open>match\<close> is handed over as it is.
\<close>

theorem handleRequest_params:
  assumes "startsWith (protocol (new_URL (request_url (request ev)))) ''http''"
    and "c = \<lparr>url = new_URL (request_url (request ev)), event = ev\<rparr>"
    and "Map_get (request_method (request ev)) (routes this) = Some (pre @ r # post)"
    and "\<forall>x \<in> set pre. \<not> truthy (match x c)"
    and "truthy (match r c)"
  shows "snd (snd (handleRequest this (Instance ev))) =
     map (\<lambda>x. MatchCall (rid x) c) pre @
     [MatchCall (rid r) c, Log (FoundMatchingRoute (rid r)),
      HandleCall (hid (handler r))
        \<lparr>url = url c, event = ev,
         params = (if match r c = JArray [] \<or> match r c = JObject [] then JUndefined
                   else match r c),
         error = None\<rparr>]"
  using assms
  by (simp add: handleRequest_def findHandlerAndParams_def findLoop_first_match
      isEmptyArray_iff isEmptyPlainObject_iff Let_def)

theorem handleRequest_params_witness:
  "truthy (match exImages exLogoContext) \<and> match exImages exLogoContext = JArray [] \<and>
   snd (snd (handleRequest (exRouter [exStyles, exImages, exSite] None None)
               (Instance exLogoEvent))) =
     [MatchCall 5 exLogoContext, MatchCall 1 exLogoContext, Log (FoundMatchingRoute 1),
      HandleCall 11 \<lparr>url = url exLogoContext, event = exLogoEvent, params = JUndefined,
                     error = None\<rparr>] \<and>
   truthy (match exLogo exLogoContext) \<and>
   snd (snd (handleRequest (exRouter [exStyles, exLogo, exSite] None None)
               (Instance exLogoEvent))) =
     [MatchCall 5 exLogoContext, MatchCall 2 exLogoContext, Log (FoundMatchingRoute 2),
      HandleCall 12 \<lparr>url = url exLogoContext, event = exLogoEvent,
                     params = JObject [(''file'', JStr ''logo'')], error = None\<rparr>]"
proof -
  have pre: "\<forall>x \<in> set [exStyles]. \<not> truthy (match x exLogoContext)"
    by (simp add: ex_defs)
  have b1: "Map_get (request_method (request exLogoEvent))
              (routes (exRouter [exStyles, exImages, exSite] None None)) =
            Some ([exStyles] @ exImages # [exSite])"
    by (simp add: ex_defs Map_get_def)
  have b2: "Map_get (request_method (request exLogoEvent))
              (routes (exRouter [exStyles, exLogo, exSite] None None)) =
            Some ([exStyles] @ exLogo # [exSite])"
    by (simp add: ex_defs Map_get_def)
  have t1: "truthy (match exImages exLogoContext)" by (simp add: ex_defs)
  have t2: "truthy (match exLogo exLogoContext)" by (simp add: ex_defs)
  have v1: "match exImages exLogoContext = JArray []" by (simp add: ex_defs)
  have v2: "match exLogo exLogoContext = JObject [(''file'', JStr ''logo'')]" by (simp add: ex_defs)
  have r: "rid exStyles = 5" "rid exImages = 1" "rid exLogo = 2"
    "hid (handler exImages) = 11" "hid (handler exLogo) = 12" by (simp_all add: ex_defs)
  show ?thesis
    using handleRequest_params [OF exLogo_http exLogoContext_eq b1 pre t1]
      handleRequest_params [OF exLogo_http exLogoContext_eq b2 pre t2] t1 t2
    by (simp add: v1 v2 r)
qed

text \<open>
  C5. When the promise of the selected handler (the handler of the matching route, or
  else the default handler) is rejected with an error: with a catch handler, the
  result of \<open>handleRequest\<close> is the promise that the catch handler's \<open>handle\<close> returns
  for \<open>{url, event, error}\<close> with that error; without one, it is the rejected promise
  itself.
\<close>

theorem handleRequest_handler_fails:
  assumes "startsWith (protocol (new_URL (request_url (request ev)))) ''http''"
    and "c = \<lparr>url = new_URL (request_url (request ev)), event = ev\<rparr>"
    and "findHandlerAndParams this c = ((found, ps), calls)"
    and "(case found of None \<Rightarrow> defaultHandler this | Some f \<Rightarrow> Some f) = Some h"
    and "handle h \<lparr>url = url c, event = ev, params = ps, error = None\<rparr> = Rejected e"
  shows "fst (handleRequest this (Instance ev)) =
           Inr (Some (case catchHandler this of
                        None \<Rightarrow> Rejected e
                      | Some ch \<Rightarrow>
                          handle ch \<lparr>url = url c, event = ev, params = JUndefined,
                                     error = Some e\<rparr>))"
  using assms
  by (auto simp add: handleRequest_def Let_def split: option.splits)

theorem handleRequest_handler_fails_witness:
  "handle (handler exLogo)
     \<lparr>url = url exLogoContext, event = exLogoEvent,
      params = JObject [(''file'', JStr ''logo'')], error = None\<rparr> = Rejected (Failure ''logo'') \<and>
   fst (handleRequest (exRouter [exLogo, exImages] None (Some (exCatchHandler 20)))
          (Instance exLogoEvent)) =
     Inr (Some (Fulfilled (Response ''recovered from logo''))) \<and>
   fst (handleRequest (exRouter [exLogo, exImages] None None) (Instance exLogoEvent)) =
     Inr (Some (Rejected (Failure ''logo'')))"
proof -
  let ?ps = "JObject [(''file'', JStr ''logo'')]"
  let ?calls = "[MatchCall 2 exLogoContext, Log (FoundMatchingRoute 2)]"
  have f1: "findHandlerAndParams (exRouter [exLogo, exImages] None (Some (exCatchHandler 20)))
              exLogoContext = ((Some (handler exLogo), ?ps), ?calls)"
    by (simp add: ex_defs findHandlerAndParams_def Map_get_def)
  have f2: "findHandlerAndParams (exRouter [exLogo, exImages] None None)
              exLogoContext = ((Some (handler exLogo), ?ps), ?calls)"
    by (simp add: ex_defs findHandlerAndParams_def Map_get_def)
  have s1: "(case Some (handler exLogo) of
               None \<Rightarrow> defaultHandler (exRouter [exLogo, exImages] None (Some (exCatchHandler 20)))
             | Some f \<Rightarrow> Some f) = Some (handler exLogo)"
    by simp
  have s2: "(case Some (handler exLogo) of
               None \<Rightarrow> defaultHandler (exRouter [exLogo, exImages] None None)
             | Some f \<Rightarrow> Some f) = Some (handler exLogo)"
    by simp
  have rej: "handle (handler exLogo)
               \<lparr>url = url exLogoContext, event = exLogoEvent, params = ?ps, error = None\<rparr> =
             Rejected (Failure ''logo'')"
    by (simp add: ex_defs)
  show ?thesis
    using handleRequest_handler_fails [OF exLogo_http exLogoContext_eq f1 s1 rej]
      handleRequest_handler_fails [OF exLogo_http exLogoContext_eq f2 s2 rej] rej
    by (simp add: exRouter_def exCatchHandler_def)
qed

text \<open>
  C6. On a URL whose protocol starts with \<open>http\<close>, when no route of the request's method
  returns a truthy result and no default handler is set, \<open>handleRequest\<close> returns
  \<open>undefined\<close>, and the only calls made are those of \<open>match\<close>: no handler is called.
\<close>

theorem handleRequest_no_match_no_default:
  assumes "startsWith (protocol (new_URL (request_url (request ev)))) ''http''"
    and "c = \<lparr>url = new_URL (request_url (request ev)), event = ev\<rparr>"
    and "bucket = (case Map_get (request_method (request ev)) (routes this) of
                     None \<Rightarrow> [] | Some rs \<Rightarrow> rs)"
    and "\<forall>x \<in> set bucket. \<not> truthy (match x c)"
    and "defaultHandler this = None"
  shows "handleRequest this (Instance ev) =
           (Inr None, this, map (\<lambda>x. MatchCall (rid x) c) bucket)"
  using assms
  by (simp add: handleRequest_def findHandlerAndParams_def findLoop_no_match Let_def)

theorem handleRequest_no_match_no_default_witness:
  "\<not> truthy (match exStyles exLogoContext) \<and>
   handleRequest (exRouter [exStyles] None (Some (exCatchHandler 20))) (Instance exLogoEvent) =
     (Inr None, exRouter [exStyles] None (Some (exCatchHandler 20)),
      [MatchCall 5 exLogoContext])"
proof -
  let ?router = "exRouter [exStyles] None (Some (exCatchHandler 20))"
  have b: "[exStyles] = (case Map_get (request_method (request exLogoEvent)) (routes ?router) of
                           None \<Rightarrow> [] | Some rs \<Rightarrow> rs)"
    by (simp add: ex_defs Map_get_def)
  have n: "\<forall>x \<in> set [exStyles]. \<not> truthy (match x exLogoContext)"
    by (simp add: ex_defs)
  have d: "defaultHandler ?router = None" by (simp add: exRouter_def)
  have r: "rid exStyles = 5" by (simp add: ex_defs)
  show ?thesis
    using handleRequest_no_match_no_default [OF exLogo_http exLogoContext_eq b n d] n
    by (simp add: r)
qed

text \<open>
  C7. On a URL whose protocol starts with \<open>http\<close>, when no route of the request's method
  returns a truthy result and a default handler is set, \<open>handleRequest\<close> calls the
  default handler's \<open>handle\<close> with \<open>params\<close> undefined, and returns its promise, with
  the catch handler attached when there is one.
\<close>

theorem handleRequest_no_match_default:
  assumes "startsWith (protocol (new_URL (request_url (request ev)))) ''http''"
    and "c = \<lparr>url = new_URL (request_url (request ev)), event = ev\<rparr>"
    and "bucket = (case Map_get (request_method (request ev)) (routes this) of
                     None \<Rightarrow> [] | Some rs \<Rightarrow> rs)"
    and "\<forall>x \<in> set bucket. \<not> truthy (match x c)"
    and "defaultHandler this = Some d"
    and "hc = \<lparr>url = url c, event = ev, params = JUndefined, error = None\<rparr>"
  shows "handleRequest this (Instance ev) =
           (Inr (Some (case catchHandler this of
                         None \<Rightarrow> handle d hc
                       | Some ch \<Rightarrow>
                           promise_catch (handle d hc)
                             (\<lambda>e. handle ch \<lparr>url = url c, event = ev, params = JUndefined,
                                             error = Some e\<rparr>))),
            this,
            map (\<lambda>x. MatchCall (rid x) c) bucket @ [HandleCall (hid d) hc])"
  using assms
  by (simp add: handleRequest_def findHandlerAndParams_def findLoop_no_match Let_def
      split: option.splits)

theorem handleRequest_no_match_default_witness:
  "\<not> truthy (match exStyles exLogoContext) \<and>
   handleRequest (exRouter [exStyles] (Some (handler exSite)) None) (Instance exLogoEvent) =
     (Inr (Some (Fulfilled (Response ''site''))),
      exRouter [exStyles] (Some (handler exSite)) None,
      [MatchCall 5 exLogoContext,
       HandleCall 13 \<lparr>url = url exLogoContext, event = exLogoEvent, params = JUndefined,
                      error = None\<rparr>])"
proof -
  let ?router = "exRouter [exStyles] (Some (handler exSite)) None"
  have b: "[exStyles] = (case Map_get (request_method (request exLogoEvent)) (routes ?router) of
                           None \<Rightarrow> [] | Some rs \<Rightarrow> rs)"
    by (simp add: ex_defs Map_get_def)
  have n: "\<forall>x \<in> set [exStyles]. \<not> truthy (match x exLogoContext)"
    by (simp add: ex_defs)
  have d: "defaultHandler ?router = Some (handler exSite)" by (simp add: exRouter_def)
  have r: "rid exStyles = 5" "hid (handler exSite) = 13"
    "handle (handler exSite) = (\<lambda>c. Fulfilled (Response ''site''))"
    "catchHandler ?router = None" by (simp_all add: ex_defs)
  show ?thesis
    using handleRequest_no_match_default [OF exLogo_http exLogoContext_eq b n d refl] n
    by (simp add: r)
qed

text \<open>
  C8. For a list \<open>rs\<close> of routes, \<open>registerRoutes\<close> gives the result and the router
  that \<open>registerRoute\<close> gives when applied to each element of \<open>rs\<close> from left to
  right. It does not fail, and afterwards the bucket of every method holds the routes
  of \<open>rs\<close> on that method in reverse input order, in front of the routes it held
  before; a method that no route of \<open>rs\<close> has keeps its entry, or its absence.
\<close>

theorem registerRoutes_each_in_order:
  "registerRoutes this (AnArray (map Instance rs)) =
     fold (\<lambda>r st. registerRoute (fst (snd st)) (Instance r)) rs (Inr (), this, [])
   \<and> fst (registerRoutes this (AnArray (map Instance rs))) = Inr ()
   \<and> (\<forall>k. Map_get k (routes (fst (snd (registerRoutes this (AnArray (map Instance rs)))))) =
          (if filter (\<lambda>r. method r = k) rs = [] then Map_get k (routes this)
           else Some (rev (filter (\<lambda>r. method r = k) rs) @
                      (case Map_get k (routes this) of None \<Rightarrow> [] | Some b \<Rightarrow> b))))"
proof (intro conjI allI)
  show "registerRoutes this (AnArray (map Instance rs)) =
     fold (\<lambda>r st. registerRoute (fst (snd st)) (Instance r)) rs (Inr (), this, [])"
    by (rule registerRoutes_fold)
next
  show "fst (registerRoutes this (AnArray (map Instance rs))) = Inr ()"
    by (simp add: registerRoutes_valid)
next
  fix k
  show "Map_get k (routes (fst (snd (registerRoutes this (AnArray (map Instance rs)))))) =
          (if filter (\<lambda>r. method r = k) rs = [] then Map_get k (routes this)
           else Some (rev (filter (\<lambda>r. method r = k) rs) @
                      (case Map_get k (routes this) of None \<Rightarrow> [] | Some b \<Rightarrow> b)))"
    using registerLoop_ok [of rs "routes this" k]
    by (simp add: registerRoutes_valid Map_get_def)
qed

theorem registerRoutes_each_in_order_witness:
  "registerRoutes (exRouter [exSite] None None)
     (AnArray [Instance exImages, Instance exUpload, Instance exLogo]) =
   registerRoute
     (fst (snd (registerRoute
        (fst (snd (registerRoute (exRouter [exSite] None None) (Instance exImages))))
        (Instance exUpload))))
     (Instance exLogo) \<and>
   Map_get ''GET'' (routes (fst (snd (registerRoutes (exRouter [exSite] None None)
     (AnArray [Instance exImages, Instance exUpload, Instance exLogo]))))) =
   Some [exLogo, exImages, exSite] \<and>
   Map_get ''POST'' (routes (fst (snd (registerRoutes (exRouter [exSite] None None)
     (AnArray [Instance exImages, Instance exUpload, Instance exLogo]))))) =
   Some [exUpload]"
proof -
  note w = registerRoutes_each_in_order [of "exRouter [exSite] None None" "[exImages, exUpload, exLogo]"]
  have m: "method exImages = ''GET''" "method exUpload = ''POST''" "method exLogo = ''GET''"
    by (simp_all add: ex_defs)
  have old: "Map_get ''GET'' (routes (exRouter [exSite] None None)) = Some [exSite]"
    "Map_get ''POST'' (routes (exRouter [exSite] None None)) = None"
    by (simp_all add: exRouter_def Map_get_def)
  from w have a: "registerRoutes (exRouter [exSite] None None)
     (AnArray [Instance exImages, Instance exUpload, Instance exLogo]) =
   registerRoute
     (fst (snd (registerRoute
        (fst (snd (registerRoute (exRouter [exSite] None None) (Instance exImages))))
        (Instance exUpload))))
     (Instance exLogo)"
    by simp
  from w have k: "Map_get k (routes (fst (snd (registerRoutes (exRouter [exSite] None None)
          (AnArray (map Instance [exImages, exUpload, exLogo])))))) =
        (if filter (\<lambda>r. method r = k) [exImages, exUpload, exLogo] = []
         then Map_get k (routes (exRouter [exSite] None None))
         else Some (rev (filter (\<lambda>r. method r = k) [exImages, exUpload, exLogo]) @
                (case Map_get k (routes (exRouter [exSite] None None)) of
                   None \<Rightarrow> [] | Some b \<Rightarrow> b)))" for k
    by blast
  from k [of "''GET''"] have b: "Map_get ''GET'' (routes (fst (snd (registerRoutes (exRouter [exSite] None None)
     (AnArray [Instance exImages, Instance exUpload, Instance exLogo]))))) =
   Some [exLogo, exImages, exSite]"
    by (simp add: m old)
  from k [of "''POST''"] have c: "Map_get ''POST'' (routes (fst (snd (registerRoutes (exRouter [exSite] None None)
     (AnArray [Instance exImages, Instance exUpload, Instance exLogo]))))) =
   Some [exUpload]"
    by (simp add: m old)
  from a b c show ?thesis by blast
qed

text \<open>
  C9. The check of the whole argument comes before any insertion: whenever
  \<open>registerRoutes\<close> fails with a TypeMismatch error, the router is the one before the
  call. That is the case when some element is not a route, and when the argument is
  not an array.
\<close>

theorem registerRoutes_atomic:
  "(fst (registerRoutes this arg) = Inl TypeMismatch \<longrightarrow> snd (registerRoutes this arg) = (this, []))
   \<and> (NotInstance \<in> set xs \<longrightarrow> registerRoutes this (AnArray xs) = (Inl TypeMismatch, this, []))
   \<and> registerRoutes this NotAnArray = (Inl TypeMismatch, this, [])"
proof (intro conjI impI)
  assume failed: "fst (registerRoutes this arg) = Inl TypeMismatch"
  show "snd (registerRoutes this arg) = (this, [])"
  proof (cases "isArrayOfClass arg")
    case (Inl e)
    then show ?thesis by (simp add: registerRoutes_def)
  next
    case (Inr rs)
    obtain e m where em: "registerLoop rs (routes this) = (e, m)"
      by (cases "registerLoop rs (routes this)")
    with registerLoop_ok [of rs "routes this"] have "e = None" by simp
    with em Inr have "fst (registerRoutes this arg) = Inr ()"
      by (simp add: registerRoutes_def)
    with failed show ?thesis by simp
  qed
next
  assume "NotInstance \<in> set xs"
  then have "allInstances xs = Inl TypeMismatch"
    by (rule allInstances_fails)
  then show "registerRoutes this (AnArray xs) = (Inl TypeMismatch, this, [])"
    by (simp add: registerRoutes_def)
next
  show "registerRoutes this NotAnArray = (Inl TypeMismatch, this, [])"
    by (simp add: registerRoutes_def)
qed

theorem registerRoutes_atomic_witness:
  "NotInstance \<in> set [Instance exImages, NotInstance, Instance exLogo] \<and>
   registerRoutes (exRouter [exSite] None None)
     (AnArray [Instance exImages, NotInstance, Instance exLogo]) =
   (Inl TypeMismatch, exRouter [exSite] None None, [])"
  using registerRoutes_atomic [of "exRouter [exSite] None None"
      "AnArray [Instance exImages, NotInstance, Instance exLogo]"
      "[Instance exImages, NotInstance, Instance exLogo]"]
  by simp

text \<open>
  C10. \<open>handleRequest\<close> on a fetch event leaves the router as it was: the same
  route table, default handler and catch handler. (The calls of \<open>match\<close> and \<open>handle\<close>
  are the collaborators' code; the router's own code writes nothing.)
\<close>

theorem handleRequest_state_unchanged:
  "fst (snd (handleRequest this (Instance ev))) = this"
  by (simp add: handleRequest_def Let_def split: prod.splits option.splits)


theorem handleRequest_state_unchanged_witness:
  "fst (snd (handleRequest (exRouter [exLogo, exImages] None (Some (exCatchHandler 20)))
               (Instance exLogoEvent))) =
   exRouter [exLogo, exImages] None (Some (exCatchHandler 20))"
  using handleRequest_state_unchanged
    [of "exRouter [exLogo, exImages] None (Some (exCatchHandler 20))" exLogoEvent]
  by simp

text \<open>
  C2. \<open>unregisterRoute\<close> on a route whose method has no bucket in the route table:
  after the message that no routes are registered for the method, the call throws a
  TypeError. In a batch, the routes after such a route are not processed: \<open>exLogo\<close>
  stays registered.
\<close>

theorem unregisterRoute_without_bucket_throws:
  "unregisterRoute Router_new (Instance exLogo) =
     (Inl TypeError, Router_new, [LogError (NoRoutesForMethod ''GET'')]) \<and>
   unregisterRoutes (exRouter [exLogo, exImages] None None)
       (AnArray [Instance exUpload, Instance exLogo]) =
     (Inl TypeError, exRouter [exLogo, exImages] None None,
      [LogError (NoRoutesForMethod ''POST'')])"
  by (simp add: ex_defs unregisterRoute_def unregisterRoutes_def Map_has_def Map_get_def)

end
